theory Spec2Isabelle
  imports Main
begin

section \<open>The bidirectional SSE server\<close>

text \<open>
  The program is \<^verbatim>\<open>go/cmd/bidirectional_server/main.go\<close>.
  The server keeps two maps under one \<^verbatim>\<open>sync.RWMutex\<close>: \<^verbatim>\<open>clients\<close> from a client
  identifier to that client's buffered request channel, and \<^verbatim>\<open>responses\<close> from a client
  identifier to that client's buffered response channel. Three HTTP handlers use them:
  \<^verbatim>\<open>/events\<close> registers a client and drains its request channel onto the event stream,
  \<^verbatim>\<open>/trigger\<close> sends one request to a client and waits for a response or for 30 seconds,
  \<^verbatim>\<open>/response\<close> puts a posted response on the client's response channel.

  Channels are reference values in Go: a handler keeps the channel it was given even after
  the map entry is replaced or deleted. The model therefore keeps the channels in a store
  indexed by addresses, and the maps hold addresses.

  The handlers run concurrently. A step of the model is what one goroutine does from one
  point where it can be suspended to the next: a call of \<^verbatim>\<open>RLock\<close> or \<^verbatim>\<open>Lock\<close>, a channel
  send, a \<^verbatim>\<open>select\<close>. A goroutine that is suspended in a channel send between \<^verbatim>\<open>RLock\<close>
  and \<^verbatim>\<open>RUnlock\<close> keeps its read lock, and a goroutine that is suspended in \<^verbatim>\<open>Lock\<close> keeps
  readers out; both are part of the server's state. Log lines are not part of the model.
\<close>

subsection \<open>Requests and responses\<close>

record Request =
  req_ID :: string
  req_Method :: string
  req_Message :: string

record Response =
  resp_ID :: string
  resp_Result :: string

subsection \<open>Go channels\<close>

text \<open>
  A buffered channel: the values waiting in it, oldest first, its capacity and whether
  \<^verbatim>\<open>close\<close> was called on it. A channel operation is \<open>Ready\<close> with its result,
  \<open>NotReady\<close> when the goroutine has to wait, or a \<open>Panic\<close>.
\<close>

record 'a chan =
  buf :: "'a list"
  cap :: nat
  closed :: bool

datatype 'a chan_op = Ready 'a | NotReady | Panic

text \<open>\<^verbatim>\<open>make(chan T, n)\<close>\<close>

definition make_chan :: "nat \<Rightarrow> 'a chan" where
  "make_chan n = \<lparr>buf = [], cap = n, closed = False\<rparr>"

text \<open>
  \<^verbatim>\<open>ch <- x\<close>: panics on a closed channel, appends when the buffer has room, and
  suspends the sender otherwise.
\<close>

definition chan_send :: "'a chan \<Rightarrow> 'a \<Rightarrow> 'a chan chan_op" where
  "chan_send ch x =
     (if closed ch then Panic
      else if length (buf ch) < cap ch then Ready (ch\<lparr>buf := buf ch @ [x]\<rparr>)
      else NotReady)"

text \<open>
  \<^verbatim>\<open>x, ok := <-ch\<close>: takes the oldest buffered value (\<open>Some x\<close>, \<^verbatim>\<open>ok\<close> true); on an
  empty closed channel it returns at once with \<^verbatim>\<open>ok\<close> false (\<open>None\<close>); on an empty open
  channel it suspends the receiver.
\<close>

definition chan_recv :: "'a chan \<Rightarrow> ('a option \<times> 'a chan) chan_op" where
  "chan_recv ch =
     (case buf ch of
        x # xs \<Rightarrow> Ready (Some x, ch\<lparr>buf := xs\<rparr>)
      | [] \<Rightarrow> if closed ch then Ready (None, ch) else NotReady)"

text \<open>\<^verbatim>\<open>close(ch)\<close>: panics when the channel is closed already.\<close>

definition chan_close :: "'a chan \<Rightarrow> 'a chan chan_op" where
  "chan_close ch = (if closed ch then Panic else Ready (ch\<lparr>closed := True\<rparr>))"

subsection \<open>The mutex\<close>

text \<open>
  \<^verbatim>\<open>sync.RWMutex\<close>. \<open>readers\<close> counts the read locks that are held. \<open>writer_pending\<close>
  says that a call of \<^verbatim>\<open>Lock\<close> has announced itself and waits for the read locks to be
  released. The write lock itself is taken and released within one step of the model
  (\<^verbatim>\<open>addClient\<close> and \<^verbatim>\<open>removeClient\<close> do not wait between \<^verbatim>\<open>Lock\<close> and \<^verbatim>\<open>Unlock\<close>), so
  it is never held between steps.

  \<^verbatim>\<open>RLock\<close> waits while a \<^verbatim>\<open>Lock\<close> call is pending: a blocked \<^verbatim>\<open>Lock\<close> keeps new readers
  out. \<^verbatim>\<open>RUnlock\<close> is called by the holder of a read lock.
\<close>

record RWMutex =
  readers :: nat
  writer_pending :: bool

definition RLock :: "RWMutex \<Rightarrow> RWMutex option" where
  "RLock m = (if writer_pending m then None else Some (m\<lparr>readers := Suc (readers m)\<rparr>))"

definition RUnlock :: "RWMutex \<Rightarrow> RWMutex" where
  "RUnlock m = m\<lparr>readers := readers m - 1\<rparr>"

text \<open>
  \<^verbatim>\<open>Lock\<close>: the caller gets the lock (\<open>Locked\<close>) when no read lock is held and no other
  \<^verbatim>\<open>Lock\<close> call is pending. When read locks are held it announces itself and waits for
  them (\<open>Queued\<close>, with the mutex as it then is). When another \<^verbatim>\<open>Lock\<close> call is pending
  already it waits behind that call (\<open>Behind\<close>). \<open>Lock_resume\<close> is the pending call going
  on: it gets the lock once the last read lock has been released.
\<close>

datatype lock_result = Locked | Queued RWMutex | Behind

definition Lock :: "RWMutex \<Rightarrow> lock_result" where
  "Lock m =
     (if writer_pending m then Behind
      else if readers m = 0 then Locked
      else Queued (m\<lparr>writer_pending := True\<rparr>))"

definition Lock_resume :: "RWMutex \<Rightarrow> RWMutex option" where
  "Lock_resume m =
     (if writer_pending m \<and> readers m = 0 then Some (m\<lparr>writer_pending := False\<rparr>) else None)"

subsection \<open>The server\<close>

type_synonym addr = nat

text \<open>
  \<open>clients\<close>, \<open>responses\<close> and \<open>mutex\<close> are the fields of the Go struct.
  \<open>request_chans\<close> and \<open>response_chans\<close> are the stores of the channels made so far;
  addresses from \<open>next_request_chan\<close> (\<open>next_response_chan\<close>) on are not allocated yet.
\<close>

record Server =
  clients :: "string \<rightharpoonup> addr"
  responses :: "string \<rightharpoonup> addr"
  mutex :: RWMutex
  request_chans :: "addr \<Rightarrow> Request chan"
  response_chans :: "addr \<Rightarrow> Response chan"
  next_request_chan :: addr
  next_response_chan :: addr

definition NewServer :: Server where
  "NewServer =
     \<lparr>clients = Map.empty, responses = Map.empty,
      mutex = \<lparr>readers = 0, writer_pending = False\<rparr>,
      request_chans = (\<lambda>_. make_chan 0), response_chans = (\<lambda>_. make_chan 0),
      next_request_chan = 0, next_response_chan = 0\<rparr>"

text \<open>
  The outcome of a step. \<open>Returns\<close>: the step runs to its end. \<open>Parks\<close>: the goroutine
  is suspended inside the step after it changed the server: it holds a read lock and
  waits in a channel send, or it has announced its \<^verbatim>\<open>Lock\<close> call and waits for the
  readers. \<open>Blocks\<close>: the goroutine is suspended and has changed nothing. \<open>Panics\<close>: the
  step panics.
\<close>

datatype 'a outcome = Returns 'a | Parks Server | Blocks | Panics

text \<open>
  \<^verbatim>\<open>addClient\<close> takes the write lock, makes two fresh channels of capacity 10 and stores
  them under the client identifier, whatever was stored there before; it returns the
  request channel. \<open>addClient_locked\<close> is its body between \<^verbatim>\<open>Lock\<close> and \<^verbatim>\<open>Unlock\<close>.
\<close>

definition addClient_locked :: "Server \<Rightarrow> string \<Rightarrow> Server \<times> addr" where
  "addClient_locked s clientID =
     (let requestChan = next_request_chan s;
          responseChan = next_response_chan s
      in (s\<lparr>request_chans := (request_chans s)(requestChan := make_chan 10),
            next_request_chan := Suc requestChan,
            clients := (clients s)(clientID \<mapsto> requestChan),
            response_chans := (response_chans s)(responseChan := make_chan 10),
            next_response_chan := Suc responseChan,
            responses := (responses s)(clientID \<mapsto> responseChan)\<rparr>,
          requestChan))"

definition addClient :: "Server \<Rightarrow> string \<Rightarrow> (Server \<times> addr) outcome" where
  "addClient s clientID =
     (case Lock (mutex s) of
        Locked \<Rightarrow> Returns (addClient_locked s clientID)
      | Queued m \<Rightarrow> Parks (s\<lparr>mutex := m\<rparr>)
      | Behind \<Rightarrow> Blocks)"

definition addClient_resume :: "Server \<Rightarrow> string \<Rightarrow> (Server \<times> addr) outcome" where
  "addClient_resume s clientID =
     (case Lock_resume (mutex s) of
        Some m \<Rightarrow> Returns (addClient_locked (s\<lparr>mutex := m\<rparr>) clientID)
      | None \<Rightarrow> Blocks)"

text \<open>
  \<^verbatim>\<open>removeClient\<close> takes the write lock; then each of the two entries is closed and
  deleted if it exists. \<open>removeClient_locked\<close> is its body between \<^verbatim>\<open>Lock\<close> and
  \<^verbatim>\<open>Unlock\<close>.
\<close>

definition remove_request_chan :: "Server \<Rightarrow> string \<Rightarrow> Server outcome" where
  "remove_request_chan s clientID =
     (case clients s clientID of
        Some ch \<Rightarrow>
          (case chan_close (request_chans s ch) of
             Ready c \<Rightarrow>
               Returns (s\<lparr>request_chans := (request_chans s)(ch := c),
                          clients := (clients s)(clientID := None)\<rparr>)
           | NotReady \<Rightarrow> Blocks
           | Panic \<Rightarrow> Panics)
      | None \<Rightarrow> Returns s)"

definition remove_response_chan :: "Server \<Rightarrow> string \<Rightarrow> Server outcome" where
  "remove_response_chan s clientID =
     (case responses s clientID of
        Some ch \<Rightarrow>
          (case chan_close (response_chans s ch) of
             Ready c \<Rightarrow>
               Returns (s\<lparr>response_chans := (response_chans s)(ch := c),
                          responses := (responses s)(clientID := None)\<rparr>)
           | NotReady \<Rightarrow> Blocks
           | Panic \<Rightarrow> Panics)
      | None \<Rightarrow> Returns s)"

definition removeClient_locked :: "Server \<Rightarrow> string \<Rightarrow> Server outcome" where
  "removeClient_locked s clientID =
     (case remove_request_chan s clientID of
        Returns s1 \<Rightarrow> remove_response_chan s1 clientID
      | Parks s1 \<Rightarrow> Parks s1
      | Blocks \<Rightarrow> Blocks
      | Panics \<Rightarrow> Panics)"

definition removeClient :: "Server \<Rightarrow> string \<Rightarrow> Server outcome" where
  "removeClient s clientID =
     (case Lock (mutex s) of
        Locked \<Rightarrow> removeClient_locked s clientID
      | Queued m \<Rightarrow> Parks (s\<lparr>mutex := m\<rparr>)
      | Behind \<Rightarrow> Blocks)"

definition removeClient_resume :: "Server \<Rightarrow> string \<Rightarrow> Server outcome" where
  "removeClient_resume s clientID =
     (case Lock_resume (mutex s) of
        Some m \<Rightarrow> removeClient_locked (s\<lparr>mutex := m\<rparr>) clientID
      | None \<Rightarrow> Blocks)"

text \<open>
  \<^verbatim>\<open>sendRequest\<close> takes a read lock and looks the client up. For a client that has an
  entry it does a blocking send on the client's request channel and returns the client's
  response channel; \<open>None\<close> is Go's \<^verbatim>\<open>nil\<close> channel. The deferred \<^verbatim>\<open>RUnlock\<close> runs when
  the function returns. While the send waits for room in the channel the goroutine is
  parked with its read lock held; \<open>sendRequest_resume\<close> is that goroutine going on, with
  the channel it had looked up.
\<close>

definition sendRequest :: "Server \<Rightarrow> string \<Rightarrow> Request \<Rightarrow> (Server \<times> addr option) outcome" where
  "sendRequest s clientID req =
     (case RLock (mutex s) of
        None \<Rightarrow> Blocks
      | Some m \<Rightarrow>
          (case clients s clientID of
             Some clientChan \<Rightarrow>
               (case chan_send (request_chans s clientChan) req of
                  Ready c \<Rightarrow>
                    Returns (s\<lparr>request_chans := (request_chans s)(clientChan := c),
                               mutex := RUnlock m\<rparr>,
                             responses s clientID)
                | NotReady \<Rightarrow> Parks (s\<lparr>mutex := m\<rparr>)
                | Panic \<Rightarrow> Panics)
           | None \<Rightarrow> Returns (s\<lparr>mutex := RUnlock m\<rparr>, None)))"

definition sendRequest_resume :: "Server \<Rightarrow> addr \<Rightarrow> string \<Rightarrow> Request \<Rightarrow> (Server \<times> addr option) outcome" where
  "sendRequest_resume s clientChan clientID req =
     (case chan_send (request_chans s clientChan) req of
        Ready c \<Rightarrow>
          Returns (s\<lparr>request_chans := (request_chans s)(clientChan := c),
                     mutex := RUnlock (mutex s)\<rparr>,
                   responses s clientID)
      | NotReady \<Rightarrow> Blocks
      | Panic \<Rightarrow> Panics)"

subsection \<open>Formatting\<close>

text \<open>\<^verbatim>\<open>fmt.Sprintf("%d", n)\<close> on an integer: decimal digits, with a minus sign.\<close>

definition digit_char :: "nat \<Rightarrow> char" where
  "digit_char d = ''0123456789'' ! d"

fun digits :: "nat \<Rightarrow> string" where
  "digits n = (if n < 10 then [digit_char n] else digits (n div 10) @ [digit_char (n mod 10)])"

declare digits.simps [simp del]

definition fmt_d :: "int \<Rightarrow> string" where
  "fmt_d i = (if i < 0 then CHR ''-'' # digits (nat (- i)) else digits (nat i))"

subsection \<open>The HTTP handlers\<close>

datatype body = Text string | Json Response

datatype http_reply = Reply nat body

text \<open>
  The \<^verbatim>\<open>/trigger\<close> handler up to its \<^verbatim>\<open>select\<close>: it either has replied already, or it
  holds the response channel that \<^verbatim>\<open>sendRequest\<close> returned and goes on to wait on it.
  \<open>now\<close> is the value of \<^verbatim>\<open>time.Now().Unix()\<close>. \<open>trigger_resume\<close> is the handler going
  on after it was parked in the send of \<^verbatim>\<open>sendRequest\<close>.
\<close>

datatype trigger_phase = Replied http_reply | Waiting addr

definition trigger_request :: "int \<Rightarrow> string \<Rightarrow> Request" where
  "trigger_request now message =
     \<lparr>req_ID = ''req_'' @ fmt_d now, req_Method = ''analyze'', req_Message = message\<rparr>"

definition trigger_sent :: "(Server \<times> addr option) outcome \<Rightarrow> (Server \<times> trigger_phase) outcome" where
  "trigger_sent r =
     (case r of
        Returns (s1, None) \<Rightarrow> Returns (s1, Replied (Reply 404 (Text ''Client not found'')))
      | Returns (s1, Some respChan) \<Rightarrow> Returns (s1, Waiting respChan)
      | Parks s1 \<Rightarrow> Parks s1
      | Blocks \<Rightarrow> Blocks
      | Panics \<Rightarrow> Panics)"

definition trigger_send :: "Server \<Rightarrow> int \<Rightarrow> string \<Rightarrow> string \<Rightarrow> (Server \<times> trigger_phase) outcome" where
  "trigger_send s now clientID message =
     (if clientID = [] \<or> message = []
      then Returns (s, Replied (Reply 400 (Text ''Need client_id and message parameters'')))
      else
        (let req = trigger_request now message
         in trigger_sent (sendRequest s clientID req)))"

definition trigger_resume :: "Server \<Rightarrow> addr \<Rightarrow> string \<Rightarrow> Request \<Rightarrow> (Server \<times> trigger_phase) outcome" where
  "trigger_resume s clientChan clientID req =
     trigger_sent (sendRequest_resume s clientChan clientID req)"

text \<open>
  Durations are nanoseconds, as Go's \<^verbatim>\<open>time.Duration\<close>.
\<close>

definition Second :: nat where
  "Second = 1000000000"

definition zero_Response :: Response where
  "zero_Response = \<lparr>resp_ID = [], resp_Result = []\<rparr>"

text \<open>
  The \<^verbatim>\<open>select\<close> of the \<^verbatim>\<open>/trigger\<close> handler, evaluated when \<open>elapsed\<close> nanoseconds have
  passed since it was entered. The timer case is ready from 30 seconds on, the receive case
  when the response channel holds a value or is closed (the handler does not test \<^verbatim>\<open>ok\<close>,
  so a closed channel yields the zero response). When both are ready Go picks either;
  \<open>prefer_timer\<close> is that choice. The handler holds no lock here.
\<close>

definition trigger_wait :: "Server \<Rightarrow> addr \<Rightarrow> nat \<Rightarrow> bool \<Rightarrow> (Server \<times> http_reply) outcome" where
  "trigger_wait s respChan elapsed prefer_timer =
     (case chan_recv (response_chans s respChan) of
        Ready (v, c) \<Rightarrow>
          if 30 * Second \<le> elapsed \<and> prefer_timer
          then Returns (s, Reply 408 (Text ''Request timeout''))
          else Returns (s\<lparr>response_chans := (response_chans s)(respChan := c)\<rparr>,
                        Reply 200 (Json (case v of Some response \<Rightarrow> response
                                         | None \<Rightarrow> zero_Response)))
      | NotReady \<Rightarrow>
          if 30 * Second \<le> elapsed
          then Returns (s, Reply 408 (Text ''Request timeout''))
          else Blocks
      | Panic \<Rightarrow> Panics)"

text \<open>
  The \<^verbatim>\<open>/response\<close> handler. \<open>method\<close> is the HTTP method, \<open>decoded\<close> the result of
  decoding the body as a \<open>Response\<close> (\<open>None\<close> when decoding fails), \<open>clientID\<close> the value of
  the \<^verbatim>\<open>Client-ID\<close> header. The result is the status code written. The handler takes a
  read lock for the lookup and the send; while the send waits for room in the channel
  the goroutine is parked with its read lock held, and \<open>response_resume\<close> is that
  goroutine going on.
\<close>

definition response_handler :: "Server \<Rightarrow> string \<Rightarrow> Response option \<Rightarrow> string \<Rightarrow> (Server \<times> nat) outcome" where
  "response_handler s method decoded clientID =
     (if method \<noteq> ''POST'' then Returns (s, 405)
      else case decoded of
        None \<Rightarrow> Returns (s, 400)
      | Some response \<Rightarrow>
          (case RLock (mutex s) of
             None \<Rightarrow> Blocks
           | Some m \<Rightarrow>
               (case responses s clientID of
                  Some respChan \<Rightarrow>
                    (case chan_send (response_chans s respChan) response of
                       Ready c \<Rightarrow>
                         Returns (s\<lparr>response_chans := (response_chans s)(respChan := c),
                                    mutex := RUnlock m\<rparr>, 200)
                     | NotReady \<Rightarrow> Parks (s\<lparr>mutex := m\<rparr>)
                     | Panic \<Rightarrow> Panics)
                | None \<Rightarrow> Returns (s\<lparr>mutex := RUnlock m\<rparr>, 200))))"

definition response_resume :: "Server \<Rightarrow> addr \<Rightarrow> Response \<Rightarrow> (Server \<times> nat) outcome" where
  "response_resume s respChan response =
     (case chan_send (response_chans s respChan) response of
        Ready c \<Rightarrow>
          Returns (s\<lparr>response_chans := (response_chans s)(respChan := c),
                     mutex := RUnlock (mutex s)\<rparr>, 200)
      | NotReady \<Rightarrow> Blocks
      | Panic \<Rightarrow> Panics)"

text \<open>
  The \<^verbatim>\<open>/events\<close> handler. What it writes to the stream is a list of frames: first the
  client identifier, then one frame for each request taken from the request channel.
  \<open>events_connect\<close> is the handler up to its loop; \<open>events_connect_resume\<close> is the
  handler going on after it was parked in the \<^verbatim>\<open>Lock\<close> of \<^verbatim>\<open>addClient\<close>.
\<close>

datatype frame = ClientIdFrame string | RequestFrame Request

definition events_clientID :: "int \<Rightarrow> string \<Rightarrow> string" where
  "events_clientID now client_id = (if client_id = [] then ''client_'' @ fmt_d now else client_id)"

definition events_added :: "string \<Rightarrow> (Server \<times> addr) outcome \<Rightarrow> (Server \<times> string \<times> addr \<times> frame list) outcome" where
  "events_added clientID r =
     (case r of
        Returns (s1, requestChan) \<Rightarrow> Returns (s1, clientID, requestChan, [ClientIdFrame clientID])
      | Parks s1 \<Rightarrow> Parks s1
      | Blocks \<Rightarrow> Blocks
      | Panics \<Rightarrow> Panics)"

definition events_connect :: "Server \<Rightarrow> int \<Rightarrow> string \<Rightarrow> (Server \<times> string \<times> addr \<times> frame list) outcome" where
  "events_connect s now client_id =
     (let clientID = events_clientID now client_id
      in events_added clientID (addClient s clientID))"

definition events_connect_resume :: "Server \<Rightarrow> string \<Rightarrow> (Server \<times> string \<times> addr \<times> frame list) outcome" where
  "events_connect_resume s clientID = events_added clientID (addClient_resume s clientID)"

text \<open>
  One iteration of the handler's \<^verbatim>\<open>for { select { ... } }\<close>. It writes a frame and goes
  on (\<open>Some frame\<close>), or the handler returns and its deferred \<^verbatim>\<open>removeClient\<close> runs
  (\<open>None\<close>). \<open>ctx_done\<close> says whether the request context is cancelled, \<open>prefer_done\<close>
  is Go's choice when both cases are ready. \<open>events_leave_resume\<close> is the handler going
  on after it was parked in the \<^verbatim>\<open>Lock\<close> of \<^verbatim>\<open>removeClient\<close>.
\<close>

definition events_left :: "Server outcome \<Rightarrow> (Server \<times> frame option) outcome" where
  "events_left r =
     (case r of
        Returns s1 \<Rightarrow> Returns (s1, None)
      | Parks s1 \<Rightarrow> Parks s1
      | Blocks \<Rightarrow> Blocks
      | Panics \<Rightarrow> Panics)"

definition events_iter :: "Server \<Rightarrow> string \<Rightarrow> addr \<Rightarrow> bool \<Rightarrow> bool \<Rightarrow> (Server \<times> frame option) outcome" where
  "events_iter s clientID requestChan ctx_done prefer_done =
     (let leave = events_left (removeClient s clientID)
      in case chan_recv (request_chans s requestChan) of
           Ready (v, c) \<Rightarrow>
             if ctx_done \<and> prefer_done then leave
             else (case v of
                     Some req \<Rightarrow>
                       Returns (s\<lparr>request_chans := (request_chans s)(requestChan := c)\<rparr>,
                                Some (RequestFrame req))
                   | None \<Rightarrow> leave)
         | NotReady \<Rightarrow> if ctx_done then leave else Blocks
         | Panic \<Rightarrow> Panics)"

definition events_leave_resume :: "Server \<Rightarrow> string \<Rightarrow> (Server \<times> frame option) outcome" where
  "events_leave_resume s clientID = events_left (removeClient_resume s clientID)"

subsection \<open>Schedules\<close>

text \<open>
  An execution of the server is an interleaving of the steps of its goroutines. A
  \<open>call\<close> names one step together with the handler's local values it uses. \<open>exec\<close> gives
  the server after the step was attempted: a step that parks leaves the server as the
  parked goroutine made it, a step that blocks or panics leaves the server as it was.
  \<open>answer\<close> is what the step's caller observes; a caller whose goroutine is parked
  observes that it is blocked.
\<close>

definition after :: "Server \<Rightarrow> (Server \<times> 'a) outcome \<Rightarrow> Server" where
  "after s r = (case r of Returns (s1, _) \<Rightarrow> s1 | Parks s1 \<Rightarrow> s1 | Blocks \<Rightarrow> s | Panics \<Rightarrow> s)"

definition answer :: "(Server \<times> 'a) outcome \<Rightarrow> 'a outcome" where
  "answer r =
     (case r of Returns (_, x) \<Rightarrow> Returns x | Parks _ \<Rightarrow> Blocks | Blocks \<Rightarrow> Blocks
      | Panics \<Rightarrow> Panics)"

datatype call =
    Connect int string
  | ConnectResume string
  | EventsIter string addr bool bool
  | LeaveResume string
  | TriggerSend int string string
  | TriggerResume addr string Request
  | TriggerWait addr nat bool
  | PostResponse string "Response option" string
  | PostResume addr Response

fun exec :: "Server \<Rightarrow> call \<Rightarrow> Server" where
  "exec s (Connect now client_id) = after s (events_connect s now client_id)"
| "exec s (ConnectResume clientID) = after s (events_connect_resume s clientID)"
| "exec s (EventsIter clientID requestChan ctx_done prefer_done) =
     after s (events_iter s clientID requestChan ctx_done prefer_done)"
| "exec s (LeaveResume clientID) = after s (events_leave_resume s clientID)"
| "exec s (TriggerSend now clientID message) = after s (trigger_send s now clientID message)"
| "exec s (TriggerResume clientChan clientID req) =
     after s (trigger_resume s clientChan clientID req)"
| "exec s (TriggerWait respChan elapsed prefer_timer) =
     after s (trigger_wait s respChan elapsed prefer_timer)"
| "exec s (PostResponse method decoded clientID) =
     after s (response_handler s method decoded clientID)"
| "exec s (PostResume respChan response) = after s (response_resume s respChan response)"

definition run :: "call list \<Rightarrow> Server" where
  "run cs = foldl exec NewServer cs"




text \<open>
  A schedule that ends with the mutex stuck: client \<open>c1\<close> connects, ten requests fill its
  push channel, an eleventh request is sent to it, and then its \<^verbatim>\<open>/events\<close> handler finds
  its request context cancelled.
\<close>

definition stalled :: "call list" where
  "stalled =
     Connect 0 ''c1'' # replicate 10 (TriggerSend 100 ''c1'' ''m'') @
     [TriggerSend 101 ''c1'' ''m'', EventsIter ''c1'' 0 True True]"


section \<open>Single steps\<close>

lemmas mutex_defs = RLock_def RUnlock_def Lock_def Lock_resume_def

lemmas handler_defs =
  events_connect_def events_connect_resume_def events_added_def events_clientID_def
  addClient_def addClient_resume_def addClient_locked_def
  trigger_send_def trigger_resume_def trigger_sent_def sendRequest_def sendRequest_resume_def
  trigger_wait_def response_handler_def response_resume_def
  events_iter_def events_leave_resume_def events_left_def
  removeClient_def removeClient_resume_def removeClient_locked_def
  remove_request_chan_def remove_response_chan_def
  chan_send_def chan_recv_def chan_close_def make_chan_def mutex_defs
  NewServer_def Second_def zero_Response_def Let_def

lemmas schedule_defs = run_def after_def answer_def

lemma fmt_d_examples:
  "fmt_d 1 = ''1''" "fmt_d 2 = ''2''" "fmt_d 3 = ''3''"
  "fmt_d 100 = ''100''" "fmt_d 101 = ''101''" "fmt_d 200 = ''200''"
  "fmt_d 1700000000 = ''1700000000''"
  by (simp_all add: fmt_d_def digit_char_def digits.simps)

lemma sendRequest_room:
  assumes "\<not> writer_pending (mutex s)" "clients s c = Some q" "\<not> closed (request_chans s q)"
    "length (buf (request_chans s q)) < cap (request_chans s q)"
  shows "sendRequest s c req =
     Returns (s\<lparr>request_chans := (request_chans s)
                   (q := (request_chans s q)\<lparr>buf := buf (request_chans s q) @ [req]\<rparr>)\<rparr>,
              responses s c)"
  using assms by (simp add: sendRequest_def chan_send_def mutex_defs)

lemma trigger_send_room:
  assumes "\<not> writer_pending (mutex s)" "clients s c = Some q" "responses s c = Some a"
    "\<not> closed (request_chans s q)"
    "length (buf (request_chans s q)) < cap (request_chans s q)" "c \<noteq> []" "message \<noteq> []"
  shows "trigger_send s now c message =
     Returns (s\<lparr>request_chans := (request_chans s)
                   (q := (request_chans s q)
                      \<lparr>buf := buf (request_chans s q) @ [trigger_request now message]\<rparr>)\<rparr>,
              Waiting a)"
  using assms by (simp add: trigger_send_def trigger_sent_def sendRequest_room)

lemma response_handler_room:
  assumes "\<not> writer_pending (mutex s)" "responses s c = Some a" "\<not> closed (response_chans s a)"
    "length (buf (response_chans s a)) < cap (response_chans s a)"
  shows "response_handler s ''POST'' (Some r) c =
     Returns (s\<lparr>response_chans := (response_chans s)
                   (a := (response_chans s a)\<lparr>buf := buf (response_chans s a) @ [r]\<rparr>)\<rparr>,
              200)"
  using assms by (simp add: response_handler_def chan_send_def mutex_defs)

lemma response_handler_waits:
  "writer_pending (mutex s) \<Longrightarrow> response_handler s ''POST'' (Some r) c = Blocks"
  by (simp add: response_handler_def mutex_defs)

lemma trigger_wait_head:
  assumes "buf (response_chans s a) = r # rs" "\<not> (30 * Second \<le> elapsed \<and> prefer_timer)"
  shows "trigger_wait s a elapsed prefer_timer =
     Returns (s\<lparr>response_chans := (response_chans s)(a := (response_chans s a)\<lparr>buf := rs\<rparr>)\<rparr>,
              Reply 200 (Json r))"
  using assms by (auto simp add: trigger_wait_def chan_recv_def)

lemma trigger_wait_empty:
  assumes "buf (response_chans s a) = []" "\<not> closed (response_chans s a)"
  shows "trigger_wait s a elapsed prefer_timer =
     (if 30 * Second \<le> elapsed then Returns (s, Reply 408 (Text ''Request timeout''))
      else Blocks)"
  using assms by (simp add: trigger_wait_def chan_recv_def)

lemma removeClient_absent:
  "clients s c = None \<Longrightarrow> responses s c = None \<Longrightarrow>
     removeClient s c =
       (if writer_pending (mutex s) then Blocks
        else if readers (mutex s) = 0 then Returns s
        else Parks (s\<lparr>mutex := (mutex s)\<lparr>writer_pending := True\<rparr>\<rparr>))"
  by (simp add: removeClient_def removeClient_locked_def remove_request_chan_def
      remove_response_chan_def Lock_def)

lemma removeClient_deletes:
  "removeClient s c = Returns s' \<Longrightarrow>
     clients s' c = None \<and> responses s' c = None \<and>
     \<not> writer_pending (mutex s') \<and> readers (mutex s') = 0"
  by (auto simp: removeClient_def removeClient_locked_def remove_request_chan_def
      remove_response_chan_def chan_close_def Lock_def
      split: option.splits outcome.splits if_splits)

lemma removeClient_resume_deletes:
  "removeClient_resume s c = Returns s' \<Longrightarrow>
     clients s' c = None \<and> responses s' c = None \<and>
     \<not> writer_pending (mutex s') \<and> readers (mutex s') = 0"
  by (auto simp: removeClient_resume_def removeClient_locked_def remove_request_chan_def
      remove_response_chan_def chan_close_def Lock_resume_def
      split: option.splits outcome.splits if_splits)

lemma removeClient_resume_absent:
  "clients s c = None \<Longrightarrow> responses s c = None \<Longrightarrow>
     removeClient_resume s c =
       (if writer_pending (mutex s) \<and> readers (mutex s) = 0
        then Returns (s\<lparr>mutex := (mutex s)\<lparr>writer_pending := False\<rparr>\<rparr>)
        else Blocks)"
  by (simp add: removeClient_resume_def removeClient_locked_def remove_request_chan_def
      remove_response_chan_def Lock_resume_def)

lemma addClient_Returns:
  "addClient s c = Returns (s1, q) \<longleftrightarrow>
     \<not> writer_pending (mutex s) \<and> readers (mutex s) = 0 \<and> addClient_locked s c = (s1, q)"
  by (auto simp add: addClient_def Lock_def)

section \<open>Dispatch to a client that is not registered\<close>

text \<open>
  C6 (as amended). \<open>sendRequest\<close> takes the read lock before it looks the client up, so
  it is suspended while a \<^verbatim>\<open>Lock\<close> call is pending. When none is pending, then for a
  client identifier with no entry in \<open>clients\<close> it returns the nil channel at once and
  leaves the server as it was: nothing is enqueued and nothing is left pending. The
  \<^verbatim>\<open>/trigger\<close> handler, called with a non-empty client identifier and message, then
  replies 404 \<^verbatim>\<open>Client not found\<close> without waiting; with an empty client identifier or
  message it replies 400 before it calls \<open>sendRequest\<close>.
\<close>

theorem dispatch_unknown_client:
  "clients s clientID = None \<Longrightarrow>
     sendRequest s clientID req =
       (if writer_pending (mutex s) then Blocks else Returns (s, None)) \<and>
     (clientID \<noteq> [] \<and> message \<noteq> [] \<longrightarrow>
        trigger_send s now clientID message =
          (if writer_pending (mutex s) then Blocks
           else Returns (s, Replied (Reply 404 (Text ''Client not found''))))) \<and>
     (clientID = [] \<or> message = [] \<longrightarrow>
        trigger_send s now clientID message =
          Returns (s, Replied (Reply 400 (Text ''Need client_id and message parameters''))))"
  by (simp add: sendRequest_def trigger_send_def trigger_sent_def mutex_defs)

theorem dispatch_unknown_client_witness:
  "clients NewServer ''ghost'' = None \<and> \<not> writer_pending (mutex NewServer) \<and>
   sendRequest NewServer ''ghost'' (trigger_request 1700000000 ''hello'') = Returns (NewServer, None) \<and>
   trigger_send NewServer 1700000000 ''ghost'' ''hello'' =
     Returns (NewServer, Replied (Reply 404 (Text ''Client not found''))) \<and>
   trigger_send NewServer 1700000000 ''ghost'' [] =
     Returns (NewServer, Replied (Reply 400 (Text ''Need client_id and message parameters'')))"
proof -
  have absent: "clients NewServer ''ghost'' = None" and free: "\<not> writer_pending (mutex NewServer)"
    by (simp_all add: NewServer_def)
  from dispatch_unknown_client
      [OF absent, of "trigger_request 1700000000 ''hello''" "''hello''" 1700000000]
    dispatch_unknown_client [OF absent, of _ "[]" 1700000000]
    absent free
  show ?thesis by simp
qed

text \<open>
  The claim as stated fails. Client \<open>c1\<close> connects and ten requests fill its push
  channel. The handler of the eleventh request is parked in the send of \<open>sendRequest\<close>,
  holding its read lock. Then \<open>c1\<close> disconnects: its \<^verbatim>\<open>/events\<close> handler leaves the loop
  and its \<open>removeClient\<close> waits in \<^verbatim>\<open>Lock\<close> for that read lock. A request for the client
  \<open>ghost\<close>, which never connected, is now suspended in \<^verbatim>\<open>RLock\<close> and gets no reply. Nothing
  ends the wait: the parked send needs room in a channel that nobody drains any more, and
  the pending \<^verbatim>\<open>Lock\<close> needs the parked send to finish.
\<close>

lemma stalled_state:
  "clients (run stalled) = [''c1'' \<mapsto> 0]"
  "mutex (run stalled) = \<lparr>readers = 1, writer_pending = True\<rparr>"
  "\<not> closed (request_chans (run stalled) 0)"
  "cap (request_chans (run stalled) 0) = 10"
  "length (buf (request_chans (run stalled) 0)) = 10"
  by (simp_all add: stalled_def handler_defs schedule_defs eval_nat_numeral)

theorem dispatch_unknown_client_waits_counterexample:
  "clients (run stalled) ''ghost'' = None \<and>
   mutex (run stalled) = \<lparr>readers = 1, writer_pending = True\<rparr> \<and>
   sendRequest (run stalled) ''ghost'' (trigger_request 102 ''hello'') = Blocks \<and>
   answer (trigger_send (run stalled) 102 ''ghost'' ''hello'') = Blocks \<and>
   answer (trigger_resume (run stalled) 0 ''c1'' (trigger_request 101 ''m'')) = Blocks \<and>
   answer (events_leave_resume (run stalled) ''c1'') = Blocks"
  using stalled_state
  by (simp add: sendRequest_def sendRequest_resume_def trigger_send_def trigger_resume_def
      trigger_sent_def events_leave_resume_def events_left_def removeClient_resume_def
      chan_send_def mutex_defs answer_def)

section \<open>Unregistering\<close>

text \<open>
  C9. \<open>removeClient\<close> is idempotent. When neither map has an entry for the client, the
  call leaves the maps and the channels as they are: it returns the server unchanged as
  soon as it has the write lock, and until then it only waits for the lock. And when a
  call has returned, at once or after it had to wait for the lock, a second call on the
  resulting server returns that same server: it finds no entry, closes nothing and does
  not panic.
\<close>

theorem removeClient_idempotent:
  "(clients s c = None \<and> responses s c = None \<longrightarrow>
      removeClient s c =
        (if writer_pending (mutex s) then Blocks
         else if readers (mutex s) = 0 then Returns s
         else Parks (s\<lparr>mutex := (mutex s)\<lparr>writer_pending := True\<rparr>\<rparr>)) \<and>
      removeClient_resume s c =
        (if writer_pending (mutex s) \<and> readers (mutex s) = 0
         then Returns (s\<lparr>mutex := (mutex s)\<lparr>writer_pending := False\<rparr>\<rparr>)
         else Blocks)) \<and>
   (removeClient s c = Returns s' \<or> removeClient_resume s c = Returns s' \<longrightarrow>
      removeClient s' c = Returns s')"
proof (intro conjI impI)
  assume absent: "clients s c = None \<and> responses s c = None"
  then show "removeClient s c =
        (if writer_pending (mutex s) then Blocks
         else if readers (mutex s) = 0 then Returns s
         else Parks (s\<lparr>mutex := (mutex s)\<lparr>writer_pending := True\<rparr>\<rparr>))"
    by (simp add: removeClient_absent)
  from absent show "removeClient_resume s c =
        (if writer_pending (mutex s) \<and> readers (mutex s) = 0
         then Returns (s\<lparr>mutex := (mutex s)\<lparr>writer_pending := False\<rparr>\<rparr>)
         else Blocks)"
    by (simp add: removeClient_resume_absent)
next
  assume "removeClient s c = Returns s' \<or> removeClient_resume s c = Returns s'"
  then have "clients s' c = None \<and> responses s' c = None \<and>
     \<not> writer_pending (mutex s') \<and> readers (mutex s') = 0"
    using removeClient_deletes removeClient_resume_deletes by blast
  then show "removeClient s' c = Returns s'"
    by (simp add: removeClient_absent)
qed

theorem removeClient_idempotent_witness:
  "removeClient NewServer ''c1'' = Returns NewServer \<and>
   removeClient (run [Connect 0 ''c1'']) ''c1'' =
     Returns (after (run [Connect 0 ''c1''])
                (events_iter (run [Connect 0 ''c1'']) ''c1'' 0 True True)) \<and>
   removeClient (after (run [Connect 0 ''c1''])
                   (events_iter (run [Connect 0 ''c1'']) ''c1'' 0 True True)) ''c1'' =
     Returns (after (run [Connect 0 ''c1''])
                (events_iter (run [Connect 0 ''c1'']) ''c1'' 0 True True))"
proof -
  have absent: "clients NewServer ''c1'' = None \<and> responses NewServer ''c1'' = None"
    and free: "\<not> writer_pending (mutex NewServer)" "readers (mutex NewServer) = 0"
    by (simp_all add: NewServer_def)
  have once: "removeClient (run [Connect 0 ''c1'']) ''c1'' =
     Returns (after (run [Connect 0 ''c1''])
                (events_iter (run [Connect 0 ''c1'']) ''c1'' 0 True True))"
    by (simp add: handler_defs schedule_defs)
  from removeClient_idempotent [of NewServer "''c1''" NewServer] absent free
  have "removeClient NewServer ''c1'' = Returns NewServer"
    by simp
  moreover
  from removeClient_idempotent [of "run [Connect 0 ''c1'']" "''c1''"
      "after (run [Connect 0 ''c1''])
         (events_iter (run [Connect 0 ''c1'']) ''c1'' 0 True True)"] once
  have "removeClient (after (run [Connect 0 ''c1''])
                   (events_iter (run [Connect 0 ''c1'']) ''c1'' 0 True True)) ''c1'' =
     Returns (after (run [Connect 0 ''c1''])
                (events_iter (run [Connect 0 ''c1'']) ''c1'' 0 True True))"
    by blast
  ultimately show ?thesis using once by blast
qed


section \<open>Dispatch and submit\<close>

text \<open>
  C1 (as amended). After \<open>trigger_send\<close> the handler waits on the client's response channel
  and takes whatever response is at its head; the identifier of the response is never
  compared with the identifier of the request. So, for a client with an open session
  whose response channel is empty, and with no \<^verbatim>\<open>Lock\<close> call pending on the mutex: when
  the request is enqueued and a response for the client is posted before the 30 seconds
  have passed, the handler replies 200 with that response, whatever its identifier. The
  response is removed from the channel by this, so it is returned once: a further wait on
  the channel finds it empty and blocks.
\<close>

theorem dispatch_returns_queued_response:
  assumes "clients s c = Some q" "responses s c = Some a"
    "\<not> closed (request_chans s q)" "length (buf (request_chans s q)) < cap (request_chans s q)"
    "\<not> closed (response_chans s a)" "buf (response_chans s a) = []" "0 < cap (response_chans s a)"
    "c \<noteq> []" "message \<noteq> []" "elapsed < 30 * Second"
    "\<not> writer_pending (mutex s)"
  shows "\<exists>s1 s2 s3.
      trigger_send s now c message = Returns (s1, Waiting a) \<and>
      response_handler s1 ''POST'' (Some r) c = Returns (s2, 200) \<and>
      trigger_wait s2 a elapsed prefer_timer = Returns (s3, Reply 200 (Json r)) \<and>
      buf (response_chans s3 a) = [] \<and>
      trigger_wait s3 a elapsed prefer_timer = Blocks"
proof -
  define s1 where "s1 = s\<lparr>request_chans := (request_chans s)
     (q := (request_chans s q)\<lparr>buf := buf (request_chans s q) @ [trigger_request now message]\<rparr>)\<rparr>"
  define s2 where "s2 = s1\<lparr>response_chans := (response_chans s1)
     (a := (response_chans s1 a)\<lparr>buf := buf (response_chans s1 a) @ [r]\<rparr>)\<rparr>"
  define s3 where "s3 = s2\<lparr>response_chans := (response_chans s2)
     (a := (response_chans s2 a)\<lparr>buf := []\<rparr>)\<rparr>"
  have sent: "trigger_send s now c message = Returns (s1, Waiting a)"
    unfolding s1_def using assms by (simp add: trigger_send_room)
  have posted: "response_handler s1 ''POST'' (Some r) c = Returns (s2, 200)"
    unfolding s2_def using assms by (intro response_handler_room) (simp_all add: s1_def)
  have queue2: "buf (response_chans s2 a) = [r]"
    using assms by (simp add: s2_def s1_def)
  have got: "trigger_wait s2 a elapsed prefer_timer = Returns (s3, Reply 200 (Json r))"
    unfolding s3_def using assms queue2 by (intro trigger_wait_head) simp_all
  have queue3: "buf (response_chans s3 a) = []" "\<not> closed (response_chans s3 a)"
    using assms by (simp_all add: s3_def s2_def s1_def)
  have again: "trigger_wait s3 a elapsed prefer_timer = Blocks"
    using queue3 assms by (simp add: trigger_wait_empty)
  from sent posted got queue3(1) again show ?thesis by blast
qed

theorem dispatch_returns_queued_response_witness:
  "\<exists>s1 s2 s3.
      trigger_send (run [Connect 0 ''c1'']) 100 ''c1'' ''hello'' = Returns (s1, Waiting 0) \<and>
      response_handler s1 ''POST''
        (Some \<lparr>resp_ID = ''req_100'', resp_Result = ''Analysis complete: hello''\<rparr>) ''c1'' =
        Returns (s2, 200) \<and>
      trigger_wait s2 0 Second False =
        Returns (s3, Reply 200
          (Json \<lparr>resp_ID = ''req_100'', resp_Result = ''Analysis complete: hello''\<rparr>)) \<and>
      buf (response_chans s3 0) = [] \<and>
      trigger_wait s3 0 Second False = Blocks"
proof -
  have "clients (run [Connect 0 ''c1'']) ''c1'' = Some 0"
    "responses (run [Connect 0 ''c1'']) ''c1'' = Some 0"
    "\<not> closed (request_chans (run [Connect 0 ''c1'']) 0)"
    "length (buf (request_chans (run [Connect 0 ''c1'']) 0)) < cap (request_chans (run [Connect 0 ''c1'']) 0)"
    "\<not> closed (response_chans (run [Connect 0 ''c1'']) 0)"
    "buf (response_chans (run [Connect 0 ''c1'']) 0) = []"
    "0 < cap (response_chans (run [Connect 0 ''c1'']) 0)"
    "''c1'' \<noteq> []" "''hello'' \<noteq> []" "Second < 30 * Second"
    "\<not> writer_pending (mutex (run [Connect 0 ''c1'']))"
    by (simp_all add: handler_defs schedule_defs)
  then show ?thesis
    by (rule dispatch_returns_queued_response)
qed

text \<open>
  The claim as stated fails. Two requests are sent to client \<open>c1\<close> at clock values 100
  and 101, so that both handlers wait on the client's response channel (address 0) with
  the requests \<open>req_100\<close> and \<open>req_101\<close> enqueued. The response to \<open>req_101\<close> is posted
  at once. The handler of \<open>req_100\<close> takes it, and the handler of \<open>req_101\<close>, whose
  matching response did arrive in time, then finds the channel empty and replies 408 when
  its timer fires.
\<close>

theorem crossed_responses_counterexample:
  "answer (trigger_send (run [Connect 0 ''c1'', TriggerSend 100 ''c1'' ''first'']) 101 ''c1'' ''second'')
     = Returns (Waiting 0) \<and>
   map req_ID (buf (request_chans
      (run [Connect 0 ''c1'', TriggerSend 100 ''c1'' ''first'', TriggerSend 101 ''c1'' ''second'']) 0))
     = [''req_100'', ''req_101''] \<and>
   answer (response_handler
      (run [Connect 0 ''c1'', TriggerSend 100 ''c1'' ''first'', TriggerSend 101 ''c1'' ''second''])
      ''POST'' (Some \<lparr>resp_ID = ''req_101'', resp_Result = ''second done''\<rparr>) ''c1'')
     = Returns 200 \<and>
   answer (trigger_wait
      (run [Connect 0 ''c1'', TriggerSend 100 ''c1'' ''first'', TriggerSend 101 ''c1'' ''second'',
            PostResponse ''POST'' (Some \<lparr>resp_ID = ''req_101'', resp_Result = ''second done''\<rparr>) ''c1''])
      0 0 False)
     = Returns (Reply 200 (Json \<lparr>resp_ID = ''req_101'', resp_Result = ''second done''\<rparr>)) \<and>
   answer (trigger_wait
      (run [Connect 0 ''c1'', TriggerSend 100 ''c1'' ''first'', TriggerSend 101 ''c1'' ''second'',
            PostResponse ''POST'' (Some \<lparr>resp_ID = ''req_101'', resp_Result = ''second done''\<rparr>) ''c1'',
            TriggerWait 0 0 False])
      0 (30 * Second) False)
     = Returns (Reply 408 (Text ''Request timeout''))"
  by (simp add: handler_defs schedule_defs trigger_request_def fmt_d_examples)

section \<open>A full push channel\<close>

text \<open>
  C2 (as amended). The send in \<open>sendRequest\<close> is a blocking send and there is no
  backpressure error: while the client's push channel is open and full, \<open>sendRequest\<close>,
  and with it the \<^verbatim>\<open>/trigger\<close> handler, is suspended: in \<^verbatim>\<open>RLock\<close> when a \<^verbatim>\<open>Lock\<close> call is
  pending, and otherwise parked in the send with its read lock held, where it stays as
  long as the channel is full. Only the wait for the response is bounded: once 30 seconds
  have passed in the handler's \<^verbatim>\<open>select\<close>, it returns a reply.
\<close>

theorem full_push_channel_blocks:
  "(clients s c = Some q \<and> \<not> closed (request_chans s q) \<and>
      cap (request_chans s q) \<le> length (buf (request_chans s q)) \<longrightarrow>
      sendRequest s c req =
        (if writer_pending (mutex s) then Blocks
         else Parks (s\<lparr>mutex := (mutex s)\<lparr>readers := Suc (readers (mutex s))\<rparr>\<rparr>)) \<and>
      sendRequest_resume s q c req = Blocks \<and>
      (c \<noteq> [] \<and> message \<noteq> [] \<longrightarrow>
         trigger_send s now c message =
           (if writer_pending (mutex s) then Blocks
            else Parks (s\<lparr>mutex := (mutex s)\<lparr>readers := Suc (readers (mutex s))\<rparr>\<rparr>)) \<and>
         trigger_resume s q c req = Blocks)) \<and>
   (30 * Second \<le> elapsed \<longrightarrow>
      (\<exists>s1 reply. trigger_wait s a elapsed prefer_timer = Returns (s1, reply)))"
  by (auto simp add: sendRequest_def sendRequest_resume_def trigger_send_def trigger_resume_def
      trigger_sent_def chan_send_def trigger_wait_def chan_recv_def mutex_defs
      split: list.splits)

lemma ten_pending:
  "clients (run (Connect 0 ''c1'' # replicate 10 (TriggerSend 100 ''c1'' ''m''))) ''c1'' = Some 0"
  "\<not> closed (request_chans (run (Connect 0 ''c1'' # replicate 10 (TriggerSend 100 ''c1'' ''m''))) 0)"
  "cap (request_chans (run (Connect 0 ''c1'' # replicate 10 (TriggerSend 100 ''c1'' ''m''))) 0) = 10"
  "length (buf (request_chans (run (Connect 0 ''c1'' # replicate 10 (TriggerSend 100 ''c1'' ''m''))) 0)) = 10"
  "mutex (run (Connect 0 ''c1'' # replicate 10 (TriggerSend 100 ''c1'' ''m''))) =
     \<lparr>readers = 0, writer_pending = False\<rparr>"
  by (simp_all add: handler_defs schedule_defs eval_nat_numeral)

theorem full_push_channel_blocks_witness:
  "answer (sendRequest (run (Connect 0 ''c1'' # replicate 10 (TriggerSend 100 ''c1'' ''m''))) ''c1''
      (trigger_request 101 ''m'')) = Blocks \<and>
   answer (trigger_send (run (Connect 0 ''c1'' # replicate 10 (TriggerSend 100 ''c1'' ''m'')))
      101 ''c1'' ''m'') = Blocks \<and>
   readers (mutex (after (run (Connect 0 ''c1'' # replicate 10 (TriggerSend 100 ''c1'' ''m'')))
      (trigger_send (run (Connect 0 ''c1'' # replicate 10 (TriggerSend 100 ''c1'' ''m'')))
         101 ''c1'' ''m''))) = 1 \<and>
   (\<exists>s1 reply. trigger_wait (run [Connect 0 ''c1'', TriggerSend 100 ''c1'' ''m'']) 0 (30 * Second) False
      = Returns (s1, reply))"
  using ten_pending
    full_push_channel_blocks
      [where s = "run (Connect 0 ''c1'' # replicate 10 (TriggerSend 100 ''c1'' ''m''))"
         and c = "''c1''" and q = 0 and req = "trigger_request 101 ''m''" and message = "''m''"
         and now = 101]
    full_push_channel_blocks
      [where s = "run [Connect 0 ''c1'', TriggerSend 100 ''c1'' ''m'']" and a = 0
         and elapsed = "30 * Second" and prefer_timer = False]
  by (simp add: answer_def after_def)

text \<open>
  The claim as stated fails: with ten requests waiting in the push channel of \<open>c1\<close>, the
  eleventh \<^verbatim>\<open>/trigger\<close> request does not fail with an error; it is suspended in the send.
\<close>

theorem eleventh_dispatch_blocks_counterexample:
  "answer (trigger_send (run (Connect 0 ''c1'' # replicate 10 (TriggerSend 100 ''c1'' ''m'')))
      101 ''c1'' ''m'') = Blocks"
  using ten_pending
  by (simp add: trigger_send_def trigger_sent_def sendRequest_def chan_send_def mutex_defs
      answer_def)

section \<open>Timeout\<close>

text \<open>
  C3 (as amended). When the client's response channel is open and empty and 30 seconds
  have passed, the \<^verbatim>\<open>/trigger\<close> handler replies 408 \<^verbatim>\<open>Request timeout\<close> and leaves the
  server as it was; the server keeps no pending entry that could be removed. A response
  posted for the client after that is acknowledged with 200 and appended to the client's
  response channel, where it stays; the \<^verbatim>\<open>/response\<close> handler does this as soon as it has
  the read lock, for which it waits while a \<^verbatim>\<open>Lock\<close> call is pending.
\<close>

theorem timeout_then_late_response_is_queued:
  assumes "responses s c = Some a" "\<not> closed (response_chans s a)"
    "buf (response_chans s a) = []" "0 < cap (response_chans s a)" "30 * Second \<le> elapsed"
  shows "trigger_wait s a elapsed prefer_timer = Returns (s, Reply 408 (Text ''Request timeout'')) \<and>
    (\<exists>s1. buf (response_chans s1 a) = [r] \<and>
          response_handler s ''POST'' (Some r) c =
            (if writer_pending (mutex s) then Blocks else Returns (s1, 200)))"
proof -
  let ?s1 = "s\<lparr>response_chans := (response_chans s)
       (a := (response_chans s a)\<lparr>buf := buf (response_chans s a) @ [r]\<rparr>)\<rparr>"
  have timeout: "trigger_wait s a elapsed prefer_timer =
      Returns (s, Reply 408 (Text ''Request timeout''))"
    using assms by (simp add: trigger_wait_empty)
  have queued: "buf (response_chans ?s1 a) = [r]"
    using assms by simp
  have posted: "response_handler s ''POST'' (Some r) c =
      (if writer_pending (mutex s) then Blocks else Returns (?s1, 200))"
    using assms by (simp add: response_handler_room response_handler_waits)
  from timeout queued posted show ?thesis
    by blast
qed

theorem timeout_then_late_response_is_queued_witness:
  "trigger_wait (run [Connect 0 ''c1'', TriggerSend 100 ''c1'' ''hello'']) 0 (30 * Second) False =
     Returns (run [Connect 0 ''c1'', TriggerSend 100 ''c1'' ''hello''],
              Reply 408 (Text ''Request timeout'')) \<and>
   (\<exists>s1. response_handler (run [Connect 0 ''c1'', TriggerSend 100 ''c1'' ''hello'']) ''POST''
            (Some \<lparr>resp_ID = ''req_100'', resp_Result = ''late''\<rparr>) ''c1'' = Returns (s1, 200) \<and>
         buf (response_chans s1 0) = [\<lparr>resp_ID = ''req_100'', resp_Result = ''late''\<rparr>])"
proof -
  have session: "responses (run [Connect 0 ''c1'', TriggerSend 100 ''c1'' ''hello'']) ''c1'' = Some 0"
    "\<not> closed (response_chans (run [Connect 0 ''c1'', TriggerSend 100 ''c1'' ''hello'']) 0)"
    "buf (response_chans (run [Connect 0 ''c1'', TriggerSend 100 ''c1'' ''hello'']) 0) = []"
    "0 < cap (response_chans (run [Connect 0 ''c1'', TriggerSend 100 ''c1'' ''hello'']) 0)"
    "30 * Second \<le> 30 * Second"
    by (simp_all add: handler_defs schedule_defs)
  have free: "\<not> writer_pending (mutex (run [Connect 0 ''c1'', TriggerSend 100 ''c1'' ''hello'']))"
    by (simp add: handler_defs schedule_defs)
  from timeout_then_late_response_is_queued
      [OF session, of False "\<lparr>resp_ID = ''req_100'', resp_Result = ''late''\<rparr>"] free
  show ?thesis
    by auto
qed

text \<open>
  The claim as stated fails. The request \<open>req_100\<close> to \<open>c1\<close> times out; the response to
  it is posted afterwards. The late response is not dropped: it is in the client's
  response channel, and the next request to \<open>c1\<close>, \<open>req_200\<close>, gets it as its reply.
\<close>

theorem late_response_is_delivered_counterexample:
  "answer (trigger_wait (run [Connect 0 ''c1'', TriggerSend 100 ''c1'' ''hello'']) 0 (30 * Second) False)
     = Returns (Reply 408 (Text ''Request timeout'')) \<and>
   buf (response_chans
      (run [Connect 0 ''c1'', TriggerSend 100 ''c1'' ''hello'', TriggerWait 0 (30 * Second) False,
            PostResponse ''POST'' (Some \<lparr>resp_ID = ''req_100'', resp_Result = ''late''\<rparr>) ''c1'']) 0)
     = [\<lparr>resp_ID = ''req_100'', resp_Result = ''late''\<rparr>] \<and>
   map req_ID (buf (request_chans
      (run [Connect 0 ''c1'', TriggerSend 100 ''c1'' ''hello'', TriggerWait 0 (30 * Second) False,
            PostResponse ''POST'' (Some \<lparr>resp_ID = ''req_100'', resp_Result = ''late''\<rparr>) ''c1'',
            TriggerSend 200 ''c1'' ''again'']) 0))
     = [''req_100'', ''req_200''] \<and>
   answer (trigger_wait
      (run [Connect 0 ''c1'', TriggerSend 100 ''c1'' ''hello'', TriggerWait 0 (30 * Second) False,
            PostResponse ''POST'' (Some \<lparr>resp_ID = ''req_100'', resp_Result = ''late''\<rparr>) ''c1'',
            TriggerSend 200 ''c1'' ''again'']) 0 0 False)
     = Returns (Reply 200 (Json \<lparr>resp_ID = ''req_100'', resp_Result = ''late''\<rparr>))"
  by (simp add: handler_defs schedule_defs trigger_request_def fmt_d_examples)

section \<open>Registering a client again\<close>




section \<open>Submitting a response\<close>

text \<open>
  C5 (as amended). A well-formed POST to \<^verbatim>\<open>/response\<close> for a client identifier that has
  no entry in \<open>responses\<close> changes nothing, and is acknowledged with status 200 all the
  same: the handler has no error for an unknown client. When the client has an entry and
  its response channel is open and has room, the response is appended to the channel and
  acknowledged with 200, whatever its identifier and whether or not a request is waiting.
  In both cases the handler first takes the read lock, for which it waits while a
  \<^verbatim>\<open>Lock\<close> call is pending.
\<close>

theorem submit_is_acknowledged:
  "(responses s c = None \<longrightarrow>
      response_handler s ''POST'' (Some r) c =
        (if writer_pending (mutex s) then Blocks else Returns (s, 200))) \<and>
   (responses s c = Some a \<and> \<not> closed (response_chans s a) \<and>
      length (buf (response_chans s a)) < cap (response_chans s a) \<longrightarrow>
      (\<exists>s1. buf (response_chans s1 a) = buf (response_chans s a) @ [r] \<and>
            response_handler s ''POST'' (Some r) c =
              (if writer_pending (mutex s) then Blocks else Returns (s1, 200))))"
proof (intro conjI impI)
  assume "responses s c = None"
  then show "response_handler s ''POST'' (Some r) c =
        (if writer_pending (mutex s) then Blocks else Returns (s, 200))"
    by (simp add: response_handler_def mutex_defs)
next
  assume session: "responses s c = Some a \<and> \<not> closed (response_chans s a) \<and>
      length (buf (response_chans s a)) < cap (response_chans s a)"
  let ?s1 = "s\<lparr>response_chans := (response_chans s)
       (a := (response_chans s a)\<lparr>buf := buf (response_chans s a) @ [r]\<rparr>)\<rparr>"
  have "buf (response_chans ?s1 a) = buf (response_chans s a) @ [r]"
    by simp
  moreover have "response_handler s ''POST'' (Some r) c =
      (if writer_pending (mutex s) then Blocks else Returns (?s1, 200))"
    using session by (simp add: response_handler_room response_handler_waits)
  ultimately show "\<exists>s1. buf (response_chans s1 a) = buf (response_chans s a) @ [r] \<and>
            response_handler s ''POST'' (Some r) c =
              (if writer_pending (mutex s) then Blocks else Returns (s1, 200))"
    by blast
qed

theorem submit_is_acknowledged_witness:
  "response_handler NewServer ''POST'' (Some \<lparr>resp_ID = ''req_1'', resp_Result = ''done''\<rparr>) ''c2''
     = Returns (NewServer, 200) \<and>
   (\<exists>s1. response_handler (run [Connect 0 ''c1'']) ''POST''
            (Some \<lparr>resp_ID = ''no such request'', resp_Result = ''done''\<rparr>) ''c1'' = Returns (s1, 200) \<and>
         buf (response_chans s1 0) = [\<lparr>resp_ID = ''no such request'', resp_Result = ''done''\<rparr>])"
proof -
  have unknown: "responses NewServer ''c2'' = None" "\<not> writer_pending (mutex NewServer)"
    by (simp_all add: NewServer_def)
  have known: "responses (run [Connect 0 ''c1'']) ''c1'' = Some 0"
    "\<not> closed (response_chans (run [Connect 0 ''c1'']) 0)"
    "length (buf (response_chans (run [Connect 0 ''c1'']) 0)) < cap (response_chans (run [Connect 0 ''c1'']) 0)"
    "buf (response_chans (run [Connect 0 ''c1'']) 0) = []"
    "\<not> writer_pending (mutex (run [Connect 0 ''c1'']))"
    by (simp_all add: handler_defs schedule_defs)
  from submit_is_acknowledged
      [of NewServer "''c2''" "\<lparr>resp_ID = ''req_1'', resp_Result = ''done''\<rparr>"]
    submit_is_acknowledged
      [of "run [Connect 0 ''c1'']" "''c1''" "\<lparr>resp_ID = ''no such request'', resp_Result = ''done''\<rparr>" 0]
    unknown known
  show ?thesis by auto
qed

text \<open>
  The claim as stated fails: the response posted for the client \<open>c2\<close>, which never
  connected, is answered with status 200, not with an error.
\<close>

theorem submit_unknown_client_counterexample:
  "response_handler NewServer ''POST'' (Some \<lparr>resp_ID = ''req_1'', resp_Result = ''done''\<rparr>) ''c2''
     = Returns (NewServer, 200)"
  by (simp add: response_handler_def NewServer_def mutex_defs)


section \<open>Order of delivery\<close>







section \<open>Request identifiers\<close>

text \<open>
  C8. The identifier of a request is \<open>req_\<close> followed by the clock value in whole
  seconds. Two \<^verbatim>\<open>/trigger\<close> requests for \<open>c1\<close> handled within the same second are both
  enqueued, and so in flight together, under the same identifier.
\<close>

theorem request_ids_collide_within_a_second:
  "answer (trigger_send (run [Connect 0 ''c1'']) 1700000000 ''c1'' ''first'') = Returns (Waiting 0) \<and>
   answer (trigger_send (run [Connect 0 ''c1'', TriggerSend 1700000000 ''c1'' ''first''])
             1700000000 ''c1'' ''second'') = Returns (Waiting 0) \<and>
   buf (request_chans
      (run [Connect 0 ''c1'', TriggerSend 1700000000 ''c1'' ''first'',
            TriggerSend 1700000000 ''c1'' ''second'']) 0) =
     [\<lparr>req_ID = ''req_1700000000'', req_Method = ''analyze'', req_Message = ''first''\<rparr>,
      \<lparr>req_ID = ''req_1700000000'', req_Method = ''analyze'', req_Message = ''second''\<rparr>]"
  by (simp add: handler_defs schedule_defs trigger_request_def fmt_d_examples)

section \<open>The response queue of a session\<close>

text \<open>
  C10. \<open>addClient\<close> gives the client one response channel of capacity 10, and every
  \<^verbatim>\<open>/trigger\<close> request for the client waits on that same channel. A request times out
  when the channel stays empty; a response posted afterwards, whatever its identifier, is
  appended to the channel, stays there, and is the reply to the next \<^verbatim>\<open>/trigger\<close>
  request for the client.
\<close>

theorem shared_response_queue:
  assumes "addClient s0 c = Returns (s, q)" "c \<noteq> []" "m1 \<noteq> []" "m2 \<noteq> []"
    "30 * Second \<le> e1" "e2 < 30 * Second"
  shows "\<exists>a s1 s2 s3 s4.
     responses s c = Some a \<and> response_chans s a = make_chan 10 \<and>
     trigger_send s now1 c m1 = Returns (s1, Waiting a) \<and>
     trigger_wait s1 a e1 p1 = Returns (s1, Reply 408 (Text ''Request timeout'')) \<and>
     response_handler s1 ''POST'' (Some r) c = Returns (s2, 200) \<and>
     buf (response_chans s2 a) = [r] \<and>
     trigger_send s2 now2 c m2 = Returns (s3, Waiting a) \<and>
     trigger_wait s3 a e2 p2 = Returns (s4, Reply 200 (Json r)) \<and>
     buf (response_chans s4 a) = []"
proof -
  define a where "a = next_response_chan s0"
  define s1 where "s1 = s\<lparr>request_chans := (request_chans s)
     (q := (request_chans s q)\<lparr>buf := buf (request_chans s q) @ [trigger_request now1 m1]\<rparr>)\<rparr>"
  define s2 where "s2 = s1\<lparr>response_chans := (response_chans s1)
     (a := (response_chans s1 a)\<lparr>buf := buf (response_chans s1 a) @ [r]\<rparr>)\<rparr>"
  define s3 where "s3 = s2\<lparr>request_chans := (request_chans s2)
     (q := (request_chans s2 q)\<lparr>buf := buf (request_chans s2 q) @ [trigger_request now2 m2]\<rparr>)\<rparr>"
  define s4 where "s4 = s3\<lparr>response_chans := (response_chans s3)
     (a := (response_chans s3 a)\<lparr>buf := []\<rparr>)\<rparr>"
  have fresh: "clients s c = Some q" "responses s c = Some a"
    "request_chans s q = make_chan 10" "response_chans s a = make_chan 10"
    "\<not> writer_pending (mutex s)"
    using assms(1) by (auto simp add: addClient_Returns addClient_locked_def Let_def a_def)
  have first: "trigger_send s now1 c m1 = Returns (s1, Waiting a)"
    unfolding s1_def using fresh assms by (intro trigger_send_room) (simp_all add: make_chan_def)
  have empty1: "buf (response_chans s1 a) = []" "\<not> closed (response_chans s1 a)"
    using fresh by (simp_all add: s1_def make_chan_def)
  have timeout: "trigger_wait s1 a e1 p1 = Returns (s1, Reply 408 (Text ''Request timeout''))"
    using empty1 assms by (simp add: trigger_wait_empty)
  have late: "response_handler s1 ''POST'' (Some r) c = Returns (s2, 200)"
    unfolding s2_def using fresh by (intro response_handler_room) (simp_all add: s1_def make_chan_def)
  have queue2: "buf (response_chans s2 a) = [r]"
    using fresh by (simp add: s2_def s1_def make_chan_def)
  have second: "trigger_send s2 now2 c m2 = Returns (s3, Waiting a)"
    unfolding s3_def using fresh assms
    by (intro trigger_send_room) (simp_all add: s2_def s1_def make_chan_def)
  have queue3: "buf (response_chans s3 a) = [r]"
    using queue2 by (simp add: s3_def)
  have delivered: "trigger_wait s3 a e2 p2 = Returns (s4, Reply 200 (Json r))"
    unfolding s4_def using queue3 assms by (intro trigger_wait_head) simp_all
  have queue4: "buf (response_chans s4 a) = []"
    by (simp add: s4_def)
  from fresh(2,4) first timeout late queue2 second delivered queue4 show ?thesis
    by blast
qed

theorem shared_response_queue_witness:
  "\<exists>a s1 s2 s3 s4.
     responses (run [Connect 0 ''c1'']) ''c1'' = Some a \<and>
     response_chans (run [Connect 0 ''c1'']) a = make_chan 10 \<and>
     trigger_send (run [Connect 0 ''c1'']) 100 ''c1'' ''hello'' = Returns (s1, Waiting a) \<and>
     trigger_wait s1 a (30 * Second) False = Returns (s1, Reply 408 (Text ''Request timeout'')) \<and>
     response_handler s1 ''POST'' (Some \<lparr>resp_ID = ''req_100'', resp_Result = ''late''\<rparr>) ''c1'' =
       Returns (s2, 200) \<and>
     buf (response_chans s2 a) = [\<lparr>resp_ID = ''req_100'', resp_Result = ''late''\<rparr>] \<and>
     trigger_send s2 200 ''c1'' ''again'' = Returns (s3, Waiting a) \<and>
     trigger_wait s3 a 0 False =
       Returns (s4, Reply 200 (Json \<lparr>resp_ID = ''req_100'', resp_Result = ''late''\<rparr>)) \<and>
     buf (response_chans s4 a) = []"
proof -
  have "addClient NewServer ''c1'' = Returns (run [Connect 0 ''c1''], 0)"
    "''c1'' \<noteq> []" "''hello'' \<noteq> []" "''again'' \<noteq> []"
    "30 * Second \<le> 30 * Second" "0 < 30 * Second"
    by (simp_all add: handler_defs schedule_defs)
  then show ?thesis
    by (rule shared_response_queue)
qed


end
